theory Spec2Isabelle
  imports Complex_Main "HOL-Library.Sublist" "HOL-Library.Multiset"
begin

section \<open>Data model\<close>

text \<open>
  The wallet tracker (\<^verbatim>\<open>utils.py\<close>) computes portfolio metrics from balance
  entries, a price map and a frame of trades, and keeps snapshots in two SQLite tables.

  Conventions of the embedding:
  \<^item> A finite Python float or SQLite REAL value is idealised as a \<^typ>\<open>real\<close>, and
    arithmetic on finite values is exact (no rounding, no overflow). The numbers of a trade
    frame are finite. The numbers read from balance entries and price maps are floats
    with their infinities and NaN (type \<open>pyfloat\<close> below).
  \<^item> A point in time (a \<^verbatim>\<open>datetime\<close>, a pandas timestamp, or the ISO-8601 text that
    \<^verbatim>\<open>isoformat()\<close> writes into a table) is the number of microseconds since the epoch.
    \<^verbatim>\<open>isoformat\<close> is injective and order preserving on naive datetimes, so the text
    comparison done by SQLite agrees with the comparison of these numbers.
  \<^item> \<^verbatim>\<open>datetime.now()\<close> is an input of every function that reads the clock.
  \<^item> An exception is a value \<open>Inl e\<close> of a sum type.
\<close>

datatype error =
    KeyError string
  | TypeError
  | ValueError
  | OverflowError
  | IntegrityError
  | RequestError
  | JSONDecodeError

text \<open>
  A Python float: a finite number, one of the two infinities, or NaN. Multiplication
  and addition follow IEEE 754 on the special values: an infinity times zero and the sum
  of the two infinities are NaN, and NaN propagates.
\<close>

datatype pyfloat = Finite real | PInf | NInf | NaN

fun pf_mul :: "pyfloat \<Rightarrow> pyfloat \<Rightarrow> pyfloat" where
  "pf_mul NaN y = NaN"
| "pf_mul x NaN = NaN"
| "pf_mul (Finite a) (Finite b) = Finite (a * b)"
| "pf_mul (Finite a) PInf = (if a = 0 then NaN else if 0 < a then PInf else NInf)"
| "pf_mul (Finite a) NInf = (if a = 0 then NaN else if 0 < a then NInf else PInf)"
| "pf_mul PInf (Finite b) = (if b = 0 then NaN else if 0 < b then PInf else NInf)"
| "pf_mul NInf (Finite b) = (if b = 0 then NaN else if 0 < b then NInf else PInf)"
| "pf_mul PInf PInf = PInf"
| "pf_mul PInf NInf = NInf"
| "pf_mul NInf PInf = NInf"
| "pf_mul NInf NInf = PInf"


type_synonym prices = "string \<rightharpoonup> pyfloat"

text \<open>
  A balance entry is the dictionary \<^verbatim>\<open>{"coin": ..., "total": ...}\<close> of the balance
  endpoint. Either key may be missing. The value under \<open>total\<close> is kept as what
  \<^verbatim>\<open>float()\<close> makes of it: \<open>Inr x\<close> when \<^verbatim>\<open>float()\<close> returns the float \<open>x\<close> (finite as
  for \<^verbatim>\<open>"0.0505"\<close>, infinite as for \<^verbatim>\<open>"1e999"\<close> or \<^verbatim>\<open>"inf"\<close>, NaN as for \<^verbatim>\<open>"nan"\<close>),
  \<open>Inl ValueError\<close> when it rejects a string such as \<^verbatim>\<open>"abc"\<close>, and \<open>Inl TypeError\<close>
  when the value is neither a string nor a number.
\<close>

record balance =
  coin :: "string option"
  total :: "(error + pyfloat) option"

text \<open>
  A trade frame is a pandas \<^verbatim>\<open>DataFrame\<close>: a list of column labels and a list of rows.
  A field of a row is meaningful only when its label is among the columns; reading a
  column that is absent raises \<^verbatim>\<open>KeyError\<close>.
\<close>

record trade =
  timestamp :: int
  tcoin :: string
  side :: string
  size :: real
  price :: real
  fee :: real
  value_usd :: real
  pnl :: real

record trades_df =
  columns :: "string list"
  rows :: "trade list"

definition has_column :: "trades_df \<Rightarrow> string \<Rightarrow> bool" where
  "has_column df c = (c \<in> set (columns df))"

text \<open>\<^verbatim>\<open>DataFrame.empty\<close>: one of the two axes has length zero.\<close>

definition df_empty :: "trades_df \<Rightarrow> bool" where
  "df_empty df = (rows df = [] \<or> columns df = [])"

section \<open>Metric engine\<close>

text \<open>
  \<^verbatim>\<open>balance.get("coin", "Unknown")\<close> and \<^verbatim>\<open>float(balance.get("total", 0))\<close>; the
  second raises what \<^verbatim>\<open>float()\<close> raises.
\<close>

definition balance_coin :: "balance \<Rightarrow> string" where
  "balance_coin b = (case coin b of Some c \<Rightarrow> c | None \<Rightarrow> ''Unknown'')"

definition balance_amount :: "balance \<Rightarrow> error + pyfloat" where
  "balance_amount b = (case total b of Some r \<Rightarrow> r | None \<Rightarrow> Inr (Finite 0))"

text \<open>\<^verbatim>\<open>prices.get(coin, 0)\<close>.\<close>

definition prices_get :: "prices \<Rightarrow> string \<Rightarrow> pyfloat" where
  "prices_get ps c = (case ps c of Some p \<Rightarrow> p | None \<Rightarrow> Finite 0)"



text \<open>The dictionary of period labels, read with \<^verbatim>\<open>.get(time_period, 30)\<close>.\<close>

definition period_table :: "(string \<times> int) list" where
  "period_table = [(''24 hours'', 1), (''7 days'', 7), (''30 days'', 30), (''All time'', 9999)]"

definition period_days :: "string \<Rightarrow> int" where
  "period_days time_period = (case map_of period_table time_period of Some d \<Rightarrow> d | None \<Rightarrow> 30)"

text \<open>\<^verbatim>\<open>timedelta(days=d)\<close> in microseconds.\<close>

definition timedelta_days :: "int \<Rightarrow> int" where
  "timedelta_days d = d * 86400000000"

text \<open>\<^verbatim>\<open>trades_df[trades_df['timestamp'] >= start_date]\<close>, on a frame that has the column.\<close>

definition period_filter :: "int \<Rightarrow> trade list \<Rightarrow> trade list" where
  "period_filter start_date rs = filter (\<lambda>r. start_date \<le> timestamp r) rs"

text \<open>
  \<^verbatim>\<open>calculate_pnl\<close>. The two early returns, the branch on the \<open>pnl\<close> column, the estimate
  from buys and sells, and the guarded percentage are those of the source; each column
  access that can raise \<^verbatim>\<open>KeyError\<close> is a branch.
\<close>

definition pnl_estimate :: "trades_df \<Rightarrow> trade list \<Rightarrow> error + real" where
  "pnl_estimate df period_trades =
     (if \<not> has_column df ''side'' then Inl (KeyError ''side'')
      else
        let buys = filter (\<lambda>r. side r = ''buy'') period_trades;
            sells = filter (\<lambda>r. side r = ''sell'') period_trades
        in if (buys \<noteq> [] \<or> sells \<noteq> []) \<and> \<not> has_column df ''value_usd''
           then Inl (KeyError ''value_usd'')
           else
             let buy_value = (if buys \<noteq> [] then sum_list (map value_usd buys) else 0);
                 sell_value = (if sells \<noteq> [] then sum_list (map value_usd sells) else 0)
             in Inr (sell_value - buy_value))"

definition calculate_pnl :: "int \<Rightarrow> trades_df \<Rightarrow> prices \<Rightarrow> string \<Rightarrow> error + real \<times> real" where
  "calculate_pnl now trades current_prices time_period =
     (if df_empty trades then Inr (0, 0)
      else
        let days = period_days time_period;
            start_date = now - timedelta_days days
        in if \<not> has_column trades ''timestamp'' then Inl (KeyError ''timestamp'')
           else
             let period_trades = period_filter start_date (rows trades)
             in if period_trades = [] then Inr (0, 0)
                else
                  case (if has_column trades ''pnl''
                        then Inr (sum_list (map pnl period_trades))
                        else pnl_estimate trades period_trades) of
                    Inl e \<Rightarrow> Inl e
                  | Inr total_pnl \<Rightarrow>
                      if \<not> has_column trades ''value_usd'' then Inl (KeyError ''value_usd'')
                      else
                        let investment = sum_list (map value_usd period_trades) / 2;
                            pnl_percentage =
                              (if investment > 0 then total_pnl / investment * 100 else 0)
                        in Inr (total_pnl, pnl_percentage))"

text \<open>\<^verbatim>\<open>calculate_volume\<close>, with its three ways of totalling the window.\<close>

definition calculate_volume :: "int \<Rightarrow> trades_df \<Rightarrow> string \<Rightarrow> error + real" where
  "calculate_volume now trades time_period =
     (if df_empty trades then Inr 0
      else
        let days = period_days time_period;
            start_date = now - timedelta_days days
        in if \<not> has_column trades ''timestamp'' then Inl (KeyError ''timestamp'')
           else
             let period_trades = period_filter start_date (rows trades)
             in if period_trades = [] then Inr 0
                else if has_column trades ''value_usd''
                  then Inr (sum_list (map value_usd period_trades))
                else if has_column trades ''size'' \<and> has_column trades ''price''
                  then Inr (sum_list (map (\<lambda>r. size r * price r) period_trades))
                else Inr 0)"

section \<open>Snapshot store\<close>

text \<open>
  The two tables of \<^verbatim>\<open>get_db_connection\<close>. A table is the list of its rows in insertion
  order; the \<^verbatim>\<open>AUTOINCREMENT\<close> key of a table is the counter kept beside it. Rows are
  never updated or deleted. In the balances table \<open>amount\<close> is \<^verbatim>\<open>NOT NULL\<close>, while
  \<open>price\<close> and \<open>value_usd\<close> may be \<^verbatim>\<open>NULL\<close> (\<open>None\<close>). A stored number is never NaN:
  the driver binds NaN as \<^verbatim>\<open>NULL\<close>.
\<close>

record balance_row =
  b_id :: nat
  b_wallet :: string
  b_timestamp :: int
  b_coin :: string
  b_amount :: pyfloat
  b_price :: "pyfloat option"
  b_value_usd :: "pyfloat option"

record trade_row =
  t_id :: nat
  t_wallet :: string
  t_timestamp :: int
  t_coin :: string
  t_side :: string
  t_size :: real
  t_price :: real
  t_fee :: real
  t_value_usd :: real

record conn =
  balances_tbl :: "balance_row list"
  balances_seq :: nat
  trades_tbl :: "trade_row list"
  trades_seq :: nat

text \<open>How the driver binds a float parameter: NaN becomes \<^verbatim>\<open>NULL\<close>.\<close>

definition sql_real :: "pyfloat \<Rightarrow> pyfloat option" where
  "sql_real x = (if x = NaN then None else Some x)"

text \<open>
  \<^verbatim>\<open>INSERT INTO balances (wallet, timestamp, coin, amount, price, value_usd)\<close>. A
  \<^verbatim>\<open>NULL\<close> amount violates \<^verbatim>\<open>NOT NULL\<close>: the statement raises \<^verbatim>\<open>IntegrityError\<close> and
  inserts nothing.
\<close>

definition insert_balance ::
  "conn \<Rightarrow> string \<Rightarrow> int \<Rightarrow> string \<Rightarrow> pyfloat \<Rightarrow> pyfloat \<Rightarrow> pyfloat \<Rightarrow> error + conn" where
  "insert_balance db w ts c a p v =
     (case sql_real a of
        None \<Rightarrow> Inl IntegrityError
      | Some a' \<Rightarrow>
          Inr (db\<lparr>balances_tbl := balances_tbl db @
                    [\<lparr>b_id = Suc (balances_seq db), b_wallet = w, b_timestamp = ts, b_coin = c,
                      b_amount = a', b_price = sql_real p, b_value_usd = sql_real v\<rparr>],
                  balances_seq := Suc (balances_seq db)\<rparr>))"

text \<open>\<^verbatim>\<open>INSERT INTO trades (wallet, timestamp, coin, side, size, price, fee, value_usd)\<close>.\<close>

definition insert_trade ::
  "conn \<Rightarrow> string \<Rightarrow> int \<Rightarrow> string \<Rightarrow> string \<Rightarrow> real \<Rightarrow> real \<Rightarrow> real \<Rightarrow> real \<Rightarrow> conn" where
  "insert_trade db w ts c sd sz px fe v =
     db\<lparr>trades_tbl := trades_tbl db @
           [\<lparr>t_id = Suc (trades_seq db), t_wallet = w, t_timestamp = ts, t_coin = c,
             t_side = sd, t_size = sz, t_price = px, t_fee = fe, t_value_usd = v\<rparr>],
        trades_seq := Suc (trades_seq db)\<rparr>"

text \<open>
  The first loop of \<^verbatim>\<open>store_wallet_data\<close>: one row per balance entry, all with the
  timestamp \<open>ts\<close> read before the loop. The loop ends early when \<^verbatim>\<open>float()\<close> or the
  \<^verbatim>\<open>INSERT\<close> raises. Nothing rolls back then: the rows inserted so far stay visible on
  the connection, so the result is the state of the connection together with the
  exception, if any.
\<close>

fun store_balances ::
  "string \<Rightarrow> int \<Rightarrow> prices \<Rightarrow> conn \<Rightarrow> balance list \<Rightarrow> conn \<times> error option" where
  "store_balances w ts ps db [] = (db, None)"
| "store_balances w ts ps db (b # bs) =
     (let c = balance_coin b
      in case balance_amount b of
           Inl e \<Rightarrow> (db, Some e)
         | Inr amount \<Rightarrow>
             let p = prices_get ps c;
                 v = pf_mul amount p
             in case insert_balance db w ts c amount p v of
                  Inl e \<Rightarrow> (db, Some e)
                | Inr db' \<Rightarrow> store_balances w ts ps db' bs)"

text \<open>\<^verbatim>\<open>trade.get(label, default)\<close> on a row of the frame.\<close>

definition trade_get :: "trades_df \<Rightarrow> string \<Rightarrow> (trade \<Rightarrow> 'a) \<Rightarrow> 'a \<Rightarrow> trade \<Rightarrow> 'a" where
  "trade_get df c f d r = (if has_column df c then f r else d)"

text \<open>
  The second loop: a row is skipped when one of the five essential labels is missing;
  otherwise it is inserted with the trade's own timestamp (the label is present there,
  so \<^verbatim>\<open>trade.get('timestamp')\<close> is the field).
\<close>

fun store_trades :: "string \<Rightarrow> trades_df \<Rightarrow> conn \<Rightarrow> trade list \<Rightarrow> conn" where
  "store_trades w df db [] = db"
| "store_trades w df db (r # rs) =
     (if \<not> has_column df ''timestamp'' \<or> \<not> has_column df ''coin'' \<or> \<not> has_column df ''side''
         \<or> \<not> has_column df ''size'' \<or> \<not> has_column df ''price''
      then store_trades w df db rs
      else store_trades w df
             (insert_trade db w
                (timestamp r)
                (trade_get df ''coin'' tcoin ''Unknown'' r)
                (trade_get df ''side'' side ''unknown'' r)
                (trade_get df ''size'' size 0 r)
                (trade_get df ''price'' price 0 r)
                (trade_get df ''fee'' fee 0 r)
                (trade_get df ''value_usd'' value_usd 0 r))
             rs)"

text \<open>
  \<^verbatim>\<open>store_wallet_data(conn, wallet, balances, prices, trades=None)\<close>; \<open>now\<close> is the
  reading of the clock at the top of the call. When the first loop raises, the trades
  are not reached.
\<close>

definition store_wallet_data ::
  "int \<Rightarrow> conn \<Rightarrow> string \<Rightarrow> balance list \<Rightarrow> prices \<Rightarrow> trades_df option
     \<Rightarrow> conn \<times> error option" where
  "store_wallet_data now db wallet balances ps trades =
     (let ts = now
      in case store_balances wallet ts ps db balances of
           (db1, Some e) \<Rightarrow> (db1, Some e)
         | (db1, None) \<Rightarrow>
             (case trades of
                None \<Rightarrow> (db1, None)
              | Some df \<Rightarrow>
                  if df_empty df then (db1, None)
                  else (store_trades wallet df db1 (rows df), None)))"

text \<open>Python's test \<^verbatim>\<open>if wallet:\<close> on an optional string.\<close>

fun truthy :: "string option \<Rightarrow> bool" where
  "truthy None = False"
| "truthy (Some w) = (w \<noteq> [])"



text \<open>
  \<^verbatim>\<open>ORDER BY timestamp DESC\<close> (rows with equal timestamps stay in table order) and
  \<^verbatim>\<open>LIMIT ?\<close>, where SQLite puts no bound on the result when the number is negative.
  The limit is bound as a 64-bit integer: the driver raises \<^verbatim>\<open>OverflowError\<close> for a
  Python integer outside that range, before any row is read.
\<close>

definition order_by_timestamp_desc :: "trade_row list \<Rightarrow> trade_row list" where
  "order_by_timestamp_desc rs = sort_key (\<lambda>r. - t_timestamp r) rs"

definition sql_limit :: "int \<Rightarrow> 'a list \<Rightarrow> 'a list" where
  "sql_limit n xs = (if n < 0 then xs else take (nat n) xs)"

definition fits_int64 :: "int \<Rightarrow> bool" where
  "fits_int64 n = (- (2 ^ 63) \<le> n \<and> n < 2 ^ 63)"

text \<open>The rows that the \<^verbatim>\<open>WHERE\<close> clause of \<^verbatim>\<open>get_recent_trades\<close> keeps.\<close>

definition trades_where :: "conn \<Rightarrow> string option \<Rightarrow> trade_row list" where
  "trades_where db wallet =
     (if truthy wallet then
        (case wallet of
           None \<Rightarrow> []
         | Some w \<Rightarrow> filter (\<lambda>r. t_wallet r = w) (trades_tbl db))
      else trades_tbl db)"

definition get_recent_trades :: "conn \<Rightarrow> string option \<Rightarrow> int \<Rightarrow> error + trade_row list" where
  "get_recent_trades db wallet limit =
     (if \<not> fits_int64 limit then Inl OverflowError
      else Inr (sql_limit limit (order_by_timestamp_desc (trades_where db wallet))))"

section \<open>Data source adapter\<close>

text \<open>
  A JSON value as \<^verbatim>\<open>response.json()\<close> returns it; an object is the association list
  of the parsed dictionary.
\<close>

datatype json =
    JNull
  | JBool bool
  | JNum real
  | JStr string
  | JArr "json list"
  | JObj "(string \<times> json) list"

text \<open>
  Python's \<^verbatim>\<open>key in data\<close> and \<^verbatim>\<open>data[key]\<close> for a string key: membership in a
  dictionary looks at the keys, in a list at the elements, in a string at the substrings,
  and raises \<^verbatim>\<open>TypeError\<close> on the other values; indexing by a string works on a
  dictionary only.
\<close>

fun py_contains :: "string \<Rightarrow> json \<Rightarrow> error + bool" where
  "py_contains k (JObj kvs) = Inr (k \<in> set (map fst kvs))"
| "py_contains k (JArr xs) = Inr (JStr k \<in> set xs)"
| "py_contains k (JStr s) = Inr (sublist k s)"
| "py_contains k _ = Inl TypeError"

fun py_getitem :: "json \<Rightarrow> string \<Rightarrow> error + json" where
  "py_getitem (JObj kvs) k = (case map_of kvs k of Some v \<Rightarrow> Inr v | None \<Rightarrow> Inl (KeyError k))"
| "py_getitem _ k = Inl TypeError"

text \<open>The demo data returned when the fetch fails.\<close>

definition demo_balances :: json where
  "demo_balances =
     JArr [JObj [(''coin'', JStr ''HYPE''), (''total'', JStr ''0.0505'')],
           JObj [(''coin'', JStr ''USDC''), (''total'', JStr ''0.0000'')],
           JObj [(''coin'', JStr ''USDT''), (''total'', JStr ''0.0010'')]]"

text \<open>
  \<^verbatim>\<open>get_token_balances\<close>. The parameter \<open>post\<close> stands for
  \<^verbatim>\<open>requests.post(api_endpoint, json=payload).json()\<close>: it yields the parsed body or
  the exception raised by the request or by the parser. \<open>token_balances_body\<close> is the
  body of the \<^verbatim>\<open>try\<close>, \<open>get_token_balances\<close> adds the handler. The cache decorator is
  not modelled.
\<close>

type_synonym http_post = "string \<Rightarrow> (string \<times> string) list \<Rightarrow> error + json"

definition token_balances_body :: "http_post \<Rightarrow> string \<Rightarrow> string \<Rightarrow> error + json" where
  "token_balances_body post wallet api_endpoint =
     (let payload = [(''type'', ''spotClearinghouseState''), (''user'', wallet)]
      in case post api_endpoint payload of
           Inl e \<Rightarrow> Inl e
         | Inr data \<Rightarrow>
             (case py_contains ''balances'' data of
                Inl e \<Rightarrow> Inl e
              | Inr present \<Rightarrow>
                  if \<not> present then Inr demo_balances else py_getitem data ''balances''))"

definition get_token_balances :: "http_post \<Rightarrow> string \<Rightarrow> string \<Rightarrow> error + json" where
  "get_token_balances post wallet api_endpoint =
     (case token_balances_body post wallet api_endpoint of
        Inl e \<Rightarrow> Inr demo_balances
      | Inr v \<Rightarrow> Inr v)"

section \<open>Auxiliary notions and sample data\<close>


definition essential_columns :: "trades_df \<Rightarrow> bool" where
  "essential_columns df =
     (has_column df ''timestamp'' \<and> has_column df ''coin'' \<and> has_column df ''side'' \<and>
      has_column df ''size'' \<and> has_column df ''price'')"

text \<open>The database right after the tables are created.\<close>

definition fresh_db :: conn where
  "fresh_db = \<lparr>balances_tbl = [], balances_seq = 0, trades_tbl = [], trades_seq = 0\<rparr>"

text \<open>A buy of 100 now and a sale of 150 three days ago, the clock reading 0.\<close>

definition sample_trades :: trades_df where
  "sample_trades =
     \<lparr>columns = [''timestamp'', ''coin'', ''side'', ''size'', ''price'', ''fee'', ''value_usd''],
      rows = [\<lparr>timestamp = 0, tcoin = ''HYPE'', side = ''buy'', size = 10, price = 10,
               fee = 0, value_usd = 100, pnl = 0\<rparr>,
              \<lparr>timestamp = 0 - timedelta_days 3, tcoin = ''HYPE'', side = ''sell'', size = 10,
               price = 15, fee = 0, value_usd = 150, pnl = 0\<rparr>]\<rparr>"

text \<open>The same two trades in a frame that carries a \<open>pnl\<close> column.\<close>

definition sample_pnl_trades :: trades_df where
  "sample_pnl_trades =
     \<lparr>columns = [''timestamp'', ''coin'', ''side'', ''size'', ''price'', ''value_usd'', ''pnl''],
      rows = [\<lparr>timestamp = 0, tcoin = ''HYPE'', side = ''buy'', size = 10, price = 10,
               fee = 0, value_usd = 100, pnl = 5\<rparr>,
              \<lparr>timestamp = 0 - timedelta_days 3, tcoin = ''HYPE'', side = ''sell'', size = 10,
               price = 15, fee = 0, value_usd = 150, pnl = - 2\<rparr>]\<rparr>"

text \<open>
  A fill dated at the epoch (what a missing \<^verbatim>\<open>time\<close> of 0 milliseconds decodes to) in a
  frame with a \<open>pnl\<close> column; it is read 20000 days later.
\<close>

definition epoch_fill :: trades_df where
  "epoch_fill =
     \<lparr>columns = [''timestamp'', ''coin'', ''side'', ''size'', ''price'', ''value_usd'', ''pnl''],
      rows = [\<lparr>timestamp = 0, tcoin = ''HYPE'', side = ''sell'', size = 1, price = 7,
               fee = 0, value_usd = 7, pnl = 5\<rparr>]\<rparr>"

text \<open>A frame with a \<open>pnl\<close> column and no \<open>value_usd\<close> column.\<close>

definition pnl_only_fill :: trades_df where
  "pnl_only_fill =
     \<lparr>columns = [''timestamp'', ''pnl''],
      rows = [\<lparr>timestamp = 0, tcoin = ''HYPE'', side = ''sell'', size = 1, price = 7,
               fee = 0, value_usd = 7, pnl = 5\<rparr>]\<rparr>"

text \<open>A sale reported with a signed size three days ago, so that its value is negative.\<close>

definition negative_sale :: trades_df where
  "negative_sale =
     \<lparr>columns = [''timestamp'', ''coin'', ''side'', ''size'', ''price'', ''value_usd''],
      rows = [\<lparr>timestamp = 0 - timedelta_days 3, tcoin = ''HYPE'', side = ''sell'', size = - 1,
               price = 10, fee = 0, value_usd = - 10, pnl = 0\<rparr>]\<rparr>"

text \<open>One fill with the five essential columns, executed at time 5.\<close>

definition one_fill :: trades_df where
  "one_fill =
     \<lparr>columns = [''timestamp'', ''coin'', ''side'', ''size'', ''price''],
      rows = [\<lparr>timestamp = 5, tcoin = ''HYPE'', side = ''buy'', size = 2, price = 3,
               fee = 0, value_usd = 6, pnl = 0\<rparr>]\<rparr>"

text \<open>
  Balance entries: 10 HYPE; a total that \<^verbatim>\<open>float()\<close> reads as infinity, such as
  \<^verbatim>\<open>"1e999"\<close>, for a coin without a price; and a total that \<^verbatim>\<open>float()\<close> rejects, such
  as \<^verbatim>\<open>"abc"\<close>.
\<close>

definition hype_balance :: "balance list" where
  "hype_balance = [\<lparr>coin = Some ''HYPE'', total = Some (Inr (Finite 10))\<rparr>]"

definition huge_balance :: "balance list" where
  "huge_balance = [\<lparr>coin = Some ''XYZ'', total = Some (Inr PInf)\<rparr>]"

definition malformed_balance :: "balance list" where
  "malformed_balance = [\<lparr>coin = Some ''HYPE'', total = Some (Inl ValueError)\<rparr>]"

definition hype_price :: prices where
  "hype_price = [''HYPE'' \<mapsto> Finite 3]"

text \<open>A store holding one snapshot of wallet \<open>0xabc\<close>, written at time 100.\<close>

definition one_snapshot :: conn where
  "one_snapshot = fst (store_wallet_data 100 fresh_db ''0xabc'' hype_balance hype_price None)"

text \<open>The same fill stored by two refreshes, at times 100 and 200.\<close>

definition two_refreshes :: conn where
  "two_refreshes =
     fst (store_wallet_data 200
       (fst (store_wallet_data 100 fresh_db ''0xabc'' [] Map.empty (Some one_fill)))
       ''0xabc'' [] Map.empty (Some one_fill))"

text \<open>A request that raises, and a body that is an error object.\<close>

definition failing_post :: http_post where
  "failing_post url payload = Inl RequestError"

definition error_body_post :: http_post where
  "error_body_post url payload = Inr (JObj [(''error'', JStr ''unknown user'')])"

section \<open>Properties of the metric engine\<close>






text \<open>
  C9. On an empty trade frame, whatever the period label, \<open>calculate_pnl\<close> returns
  \<open>(0, 0)\<close> and \<open>calculate_volume\<close> returns \<open>0\<close>; neither raises.
\<close>

theorem empty_trades_zero:
  "df_empty trades \<Longrightarrow>
     calculate_pnl now trades ps time_period = Inr (0, 0) \<and>
     calculate_volume now trades time_period = Inr 0"
  by (simp add: calculate_pnl_def calculate_volume_def)

theorem empty_trades_zero_witness:
  "df_empty \<lparr>columns = [''timestamp'', ''value_usd''], rows = []\<rparr> \<and>
   calculate_pnl 0 \<lparr>columns = [''timestamp'', ''value_usd''], rows = []\<rparr> Map.empty ''7 days''
     = Inr (0, 0) \<and>
   calculate_volume 0 \<lparr>columns = [''timestamp'', ''value_usd''], rows = []\<rparr> ''7 days'' = Inr 0"
proof -
  have e: "df_empty \<lparr>columns = [''timestamp'', ''value_usd''], rows = []\<rparr>"
    by (simp add: df_empty_def)
  from e empty_trades_zero [OF e, of 0 Map.empty "''7 days''"] show ?thesis by simp
qed

lemma period_days_unknown:
  "time_period \<notin> {''24 hours'', ''7 days'', ''30 days'', ''All time''} \<Longrightarrow>
     period_days time_period = 30"
  by (simp add: period_days_def period_table_def)

lemma period_days_known:
  "period_days ''24 hours'' = 1" "period_days ''7 days'' = 7"
  "period_days ''30 days'' = 30" "period_days ''All time'' = 9999"
  by (simp_all add: period_days_def period_table_def)

text \<open>
  C7. A period label that is not one of the four known ones gives, at the same clock
  reading, the results of the label \<open>30 days\<close>, for \<open>calculate_pnl\<close> and for
  \<open>calculate_volume\<close>.
\<close>

theorem unknown_period_is_30_days:
  "time_period \<notin> {''24 hours'', ''7 days'', ''30 days'', ''All time''} \<Longrightarrow>
     calculate_pnl now trades ps time_period = calculate_pnl now trades ps ''30 days'' \<and>
     calculate_volume now trades time_period = calculate_volume now trades ''30 days''"
  by (simp add: calculate_pnl_def calculate_volume_def period_days_unknown period_days_known)

theorem unknown_period_is_30_days_witness:
  "''whenever'' \<notin> {''24 hours'', ''7 days'', ''30 days'', ''All time''} \<and>
   calculate_pnl 0 sample_trades Map.empty ''whenever''
     = calculate_pnl 0 sample_trades Map.empty ''30 days'' \<and>
   calculate_volume 0 sample_trades ''whenever'' = calculate_volume 0 sample_trades ''30 days''"
proof -
  have u: "''whenever'' \<notin> {''24 hours'', ''7 days'', ''30 days'', ''All time''}"
    by simp
  from u unknown_period_is_30_days [OF u, of 0 sample_trades Map.empty]
  show ?thesis by simp
qed

subsection \<open>Profit and loss over all time\<close>

lemma period_filter_all:
  "\<forall>r\<in>set rs. s \<le> timestamp r \<Longrightarrow> period_filter s rs = rs"
  by (simp add: period_filter_def)

lemma has_column_columns: "has_column df c \<Longrightarrow> columns df \<noteq> []"
  by (auto simp: has_column_def)

text \<open>
  C2, as stated, fails. The label \<open>All time\<close> is a window of 9999 days: the fill dated
  at the epoch and read 20000 days later falls outside it, so the result is \<open>(0, 0)\<close>
  and not its \<open>pnl\<close> of 5. And the total is only returned after the percentage has read
  the \<open>value_usd\<close> column: a frame with \<open>pnl\<close> but without \<open>value_usd\<close> raises
  \<^verbatim>\<open>KeyError\<close>.
\<close>

theorem pnl_all_time_drops_old_trade:
  "rows epoch_fill \<noteq> [] \<and> has_column epoch_fill ''pnl'' \<and>
   sum_list (map pnl (rows epoch_fill)) = 5 \<and>
   calculate_pnl (timedelta_days 20000) epoch_fill Map.empty ''All time'' = Inr (0, 0) \<and>
   rows pnl_only_fill \<noteq> [] \<and> has_column pnl_only_fill ''pnl'' \<and>
   calculate_pnl 0 pnl_only_fill Map.empty ''All time'' = Inl (KeyError ''value_usd'')"
  by (simp add: calculate_pnl_def epoch_fill_def pnl_only_fill_def df_empty_def has_column_def
      period_days_known timedelta_days_def period_filter_def)

text \<open>
  C2, amended. For a non-empty trade frame with the columns \<open>timestamp\<close>, \<open>pnl\<close> and
  \<open>value_usd\<close>, all of whose trades are at most 9999 days older than the clock reading,
  the total that \<open>calculate_pnl\<close> returns for \<open>All time\<close> is the sum of the \<open>pnl\<close> column.
\<close>

theorem pnl_all_time_sums_pnl_column:
  assumes "rows trades \<noteq> []"
    and "has_column trades ''pnl''"
    and "has_column trades ''timestamp''"
    and "has_column trades ''value_usd''"
    and "\<forall>r\<in>set (rows trades). now - timedelta_days 9999 \<le> timestamp r"
  shows "map_sum id fst (calculate_pnl now trades ps ''All time'')
           = Inr (sum_list (map pnl (rows trades)))"
proof -
  have w: "period_filter (now - timedelta_days 9999) (rows trades) = rows trades"
    using assms(5) by (rule period_filter_all)
  have ne: "\<not> df_empty trades"
    using assms(1) has_column_columns [OF assms(2)] by (simp add: df_empty_def)
  show ?thesis
    using assms(1-4) ne w
    by (simp add: calculate_pnl_def period_days_known Let_def)
qed

theorem pnl_all_time_sums_pnl_column_witness:
  "rows sample_pnl_trades \<noteq> [] \<and> has_column sample_pnl_trades ''pnl'' \<and>
   has_column sample_pnl_trades ''timestamp'' \<and> has_column sample_pnl_trades ''value_usd'' \<and>
   list_all (\<lambda>r. 0 - timedelta_days 9999 \<le> timestamp r) (rows sample_pnl_trades) \<and>
   map_sum id fst (calculate_pnl 0 sample_pnl_trades Map.empty ''All time'') = Inr 3"
proof -
  have h: "rows sample_pnl_trades \<noteq> []" "has_column sample_pnl_trades ''pnl''"
    "has_column sample_pnl_trades ''timestamp''" "has_column sample_pnl_trades ''value_usd''"
    "\<forall>r\<in>set (rows sample_pnl_trades). 0 - timedelta_days 9999 \<le> timestamp r"
    by (simp_all add: sample_pnl_trades_def has_column_def timedelta_days_def)
  have s: "sum_list (map pnl (rows sample_pnl_trades)) = 3"
    by (simp add: sample_pnl_trades_def)
  from h s pnl_all_time_sums_pnl_column [OF h, of Map.empty] show ?thesis
    by (simp add: list_all_iff)
qed

subsection \<open>Volume and the width of the window\<close>

lemma sum_filter_mono:
  fixes f :: "'a \<Rightarrow> real"
  shows "\<forall>r\<in>set rs. 0 \<le> f r \<Longrightarrow> (\<And>r. P r \<Longrightarrow> Q r) \<Longrightarrow>
     sum_list (map f (filter P rs)) \<le> sum_list (map f (filter Q rs))"
  by (induction rs) auto

lemma calculate_volume_value:
  assumes "has_column trades ''timestamp''"
  shows "calculate_volume now trades p =
     Inr (sum_list (map (\<lambda>r. if has_column trades ''value_usd'' then value_usd r
                              else if has_column trades ''size'' \<and> has_column trades ''price''
                                   then size r * price r else 0)
            (period_filter (now - timedelta_days (period_days p)) (rows trades))))"
  using has_column_columns [OF assms] assms
  by (auto simp: calculate_volume_def Let_def df_empty_def period_filter_def)

lemma window_widens:
  "d \<le> d' \<Longrightarrow> now - timedelta_days d \<le> t \<Longrightarrow> now - timedelta_days d' \<le> t"
  by (simp add: timedelta_days_def)

lemma volume_window_mono:
  fixes f :: "trade \<Rightarrow> real"
  assumes "\<forall>r\<in>set rs. 0 \<le> f r" and "d \<le> d'"
  shows "sum_list (map f (period_filter (now - timedelta_days d) rs))
       \<le> sum_list (map f (period_filter (now - timedelta_days d') rs))"
  unfolding period_filter_def
  using assms(1) window_widens [OF assms(2)] by (rule sum_filter_mono)

text \<open>
  C3, as stated, fails. Nothing keeps a value from being negative: for the sale worth
  \<open>-10\<close> three days ago, the volume of the last 24 hours is 0 (no trade in the window)
  and the volume of the last 7 days is \<open>-10\<close>.
\<close>

theorem volume_shrinks_on_negative_value:
  "calculate_volume 0 negative_sale ''24 hours'' = Inr 0 \<and>
   calculate_volume 0 negative_sale ''7 days'' = Inr (- 10) \<and>
   \<not> (0 :: real) \<le> - 10"
  by (simp add: calculate_volume_def negative_sale_def df_empty_def has_column_def
      period_days_known timedelta_days_def period_filter_def)

text \<open>
  C3, amended. For a trade frame with a \<open>timestamp\<close> column in which no trade has a
  negative value (its \<open>value_usd\<close>, or \<open>size * price\<close> when that column is absent),
  the four periods give, at the same clock reading, volumes with
  24 hours \<open>\<le>\<close> 7 days \<open>\<le>\<close> 30 days \<open>\<le>\<close> All time.
\<close>

theorem volume_monotone:
  assumes ts: "has_column trades ''timestamp''"
    and nonneg: "\<forall>r\<in>set (rows trades).
        0 \<le> (if has_column trades ''value_usd'' then value_usd r
             else if has_column trades ''size'' \<and> has_column trades ''price''
                  then size r * price r else 0)"
  shows "\<exists>v1 v7 v30 vall.
           calculate_volume now trades ''24 hours'' = Inr v1 \<and>
           calculate_volume now trades ''7 days'' = Inr v7 \<and>
           calculate_volume now trades ''30 days'' = Inr v30 \<and>
           calculate_volume now trades ''All time'' = Inr vall \<and>
           v1 \<le> v7 \<and> v7 \<le> v30 \<and> v30 \<le> vall"
proof -
  let ?f = "\<lambda>r. if has_column trades ''value_usd'' then value_usd r
             else if has_column trades ''size'' \<and> has_column trades ''price''
                  then size r * price r else 0"
  let ?v = "\<lambda>d. sum_list (map ?f (period_filter (now - timedelta_days d) (rows trades)))"
  have a: "?v 1 \<le> ?v 7" using nonneg by (rule volume_window_mono) simp
  have b: "?v 7 \<le> ?v 30" using nonneg by (rule volume_window_mono) simp
  have c: "?v 30 \<le> ?v 9999" using nonneg by (rule volume_window_mono) simp
  show ?thesis
    using a b c
    by (simp only: calculate_volume_value [OF ts] period_days_known) blast
qed

theorem volume_monotone_witness:
  "has_column sample_trades ''timestamp'' \<and>
   has_column sample_trades ''value_usd'' \<and>
   list_all (\<lambda>r. 0 \<le> value_usd r) (rows sample_trades) \<and>
   (\<exists>v1 v7 v30 vall.
           calculate_volume 0 sample_trades ''24 hours'' = Inr v1 \<and>
           calculate_volume 0 sample_trades ''7 days'' = Inr v7 \<and>
           calculate_volume 0 sample_trades ''30 days'' = Inr v30 \<and>
           calculate_volume 0 sample_trades ''All time'' = Inr vall \<and>
           v1 \<le> v7 \<and> v7 \<le> v30 \<and> v30 \<le> vall) \<and>
   calculate_volume 0 sample_trades ''24 hours'' = Inr 100 \<and>
   calculate_volume 0 sample_trades ''7 days'' = Inr 250"
proof -
  have h: "has_column sample_trades ''timestamp''"
    "\<forall>r\<in>set (rows sample_trades).
        0 \<le> (if has_column sample_trades ''value_usd'' then value_usd r
             else if has_column sample_trades ''size'' \<and> has_column sample_trades ''price''
                  then size r * price r else 0)"
    by (simp_all add: sample_trades_def has_column_def)
  have v: "calculate_volume 0 sample_trades ''24 hours'' = Inr 100"
    "calculate_volume 0 sample_trades ''7 days'' = Inr 250"
    by (simp_all add: calculate_volume_def sample_trades_def df_empty_def has_column_def
        period_days_known timedelta_days_def period_filter_def)
  have c: "has_column sample_trades ''value_usd''"
    "list_all (\<lambda>r. 0 \<le> value_usd r) (rows sample_trades)"
    by (simp_all add: sample_trades_def has_column_def)
  from h(1) c v volume_monotone [OF h, of 0] show ?thesis by blast
qed

subsection \<open>The percentage\<close>

text \<open>
  C4, as stated, fails. The guard is \<^verbatim>\<open>investment > 0\<close>, so a negative denominator
  gives 0 as well: for the sale worth \<open>-10\<close> the denominator is \<open>-5\<close>, the quotient
  \<open>total_pnl / denominator * 100\<close> is 200, and the percentage returned is 0.
\<close>

theorem pnl_percentage_negative_denominator:
  "\<not> has_column negative_sale ''pnl'' \<and>
   period_filter (0 - timedelta_days (period_days ''30 days'')) (rows negative_sale) \<noteq> [] \<and>
   sum_list (map value_usd
     (period_filter (0 - timedelta_days (period_days ''30 days'')) (rows negative_sale))) / 2
     = - 5 \<and>
   calculate_pnl 0 negative_sale Map.empty ''30 days'' = Inr (- 10, 0) \<and>
   (- 10) / (- 5) * 100 \<noteq> (0 :: real)"
  by (simp add: calculate_pnl_def pnl_estimate_def negative_sale_def df_empty_def has_column_def
      period_days_known timedelta_days_def period_filter_def)

text \<open>
  C4, amended. For a trade frame with the columns \<open>timestamp\<close>, \<open>side\<close> and \<open>value_usd\<close>,
  without a \<open>pnl\<close> column, and with at least one trade in the window, \<open>calculate_pnl\<close>
  returns the total (sales minus buys in the window) and the percentage
  \<open>total_pnl / denominator * 100\<close> when the denominator, half the sum of \<open>value_usd\<close>
  over the window, is positive, and the percentage 0 when it is zero or negative; it
  never raises.
\<close>

theorem pnl_percentage_guarded:
  assumes "has_column trades ''timestamp''"
    and "has_column trades ''side''"
    and "has_column trades ''value_usd''"
    and "\<not> has_column trades ''pnl''"
    and "period_filter (now - timedelta_days (period_days p)) (rows trades) \<noteq> []"
  shows "calculate_pnl now trades ps p =
     (let window = period_filter (now - timedelta_days (period_days p)) (rows trades);
          total_pnl = sum_list (map value_usd (filter (\<lambda>r. side r = ''sell'') window))
                    - sum_list (map value_usd (filter (\<lambda>r. side r = ''buy'') window));
          denominator = sum_list (map value_usd window) / 2
      in Inr (total_pnl, if 0 < denominator then total_pnl / denominator * 100 else 0))"
proof -
  have ne: "\<not> df_empty trades"
    using assms(1,5) by (auto simp: df_empty_def has_column_def period_filter_def)
  show ?thesis
    using assms ne by (simp add: calculate_pnl_def pnl_estimate_def Let_def)
qed

theorem pnl_percentage_guarded_witness:
  "has_column sample_trades ''timestamp'' \<and> has_column sample_trades ''side'' \<and>
   has_column sample_trades ''value_usd'' \<and> \<not> has_column sample_trades ''pnl'' \<and>
   period_filter (0 - timedelta_days (period_days ''7 days'')) (rows sample_trades) \<noteq> [] \<and>
   calculate_pnl 0 sample_trades Map.empty ''7 days'' = Inr (50, 40)"
proof -
  have c: "has_column sample_trades ''timestamp''" "has_column sample_trades ''side''"
    "has_column sample_trades ''value_usd''" "\<not> has_column sample_trades ''pnl''"
    by (simp_all add: sample_trades_def has_column_def)
  have w: "period_filter (0 - timedelta_days (period_days ''7 days'')) (rows sample_trades) \<noteq> []"
    by (simp add: sample_trades_def period_days_known timedelta_days_def period_filter_def)
  have "calculate_pnl 0 sample_trades Map.empty ''7 days'' = Inr (50, 40)"
    using pnl_percentage_guarded [OF c w, of Map.empty]
    by (simp add: sample_trades_def period_days_known timedelta_days_def period_filter_def)
  with c w show ?thesis by blast
qed

section \<open>Properties of the snapshot store\<close>

lemmas store_eval = store_wallet_data_def fresh_db_def hype_balance_def hype_price_def
  huge_balance_def malformed_balance_def sql_real_def
  insert_balance_def insert_trade_def balance_coin_def balance_amount_def prices_get_def
  one_fill_def df_empty_def has_column_def trade_get_def Let_def numeral_2_eq_2

subsection \<open>What one call writes\<close>


lemma insert_balance_cases:
  "(a = NaN \<and> insert_balance db w ts c a p v = Inl IntegrityError) \<or>
   (a \<noteq> NaN \<and> (\<exists>db' row. insert_balance db w ts c a p v = Inr db' \<and>
      balances_tbl db' = balances_tbl db @ [row] \<and> trades_tbl db' = trades_tbl db \<and>
      b_wallet row = w \<and> b_timestamp row = ts \<and> b_coin row = c \<and> b_amount row = a \<and>
      b_price row = sql_real p \<and> b_value_usd row = sql_real v))"
  by (simp add: insert_balance_def sql_real_def)

lemma store_balances_appends:
  "\<exists>new. balances_tbl (fst (store_balances w ts ps db bs)) = balances_tbl db @ new \<and>
          (\<forall>r\<in>set new. b_wallet r = w \<and> b_timestamp r = ts) \<and>
          trades_tbl (fst (store_balances w ts ps db bs)) = trades_tbl db \<and>
          (case snd (store_balances w ts ps db bs) of
             None \<Rightarrow> length new = length bs
           | Some e \<Rightarrow> length new < length bs)"
proof (induction bs arbitrary: db)
  case Nil
  then show ?case by simp
next
  case (Cons b bs)
  show ?case
  proof (cases "balance_amount b")
    case (Inl e)
    then show ?thesis by (simp add: Let_def)
  next
    case (Inr amount)
    let ?p = "prices_get ps (balance_coin b)"
    from insert_balance_cases [of amount db w ts "balance_coin b" ?p "pf_mul amount ?p"]
    show ?thesis
    proof
      assume "amount = NaN \<and>
        insert_balance db w ts (balance_coin b) amount ?p (pf_mul amount ?p) = Inl IntegrityError"
      with Inr show ?thesis by (auto simp: Let_def)
    next
      assume "amount \<noteq> NaN \<and> (\<exists>db' row.
        insert_balance db w ts (balance_coin b) amount ?p (pf_mul amount ?p) = Inr db' \<and>
        balances_tbl db' = balances_tbl db @ [row] \<and> trades_tbl db' = trades_tbl db \<and>
        b_wallet row = w \<and> b_timestamp row = ts \<and> b_coin row = balance_coin b \<and>
        b_amount row = amount \<and> b_price row = sql_real ?p \<and>
        b_value_usd row = sql_real (pf_mul amount ?p))"
      then obtain db' row where
        i: "insert_balance db w ts (balance_coin b) amount ?p (pf_mul amount ?p) = Inr db'"
           "balances_tbl db' = balances_tbl db @ [row]" "trades_tbl db' = trades_tbl db"
           "b_wallet row = w" "b_timestamp row = ts"
        by blast
      from Cons.IH [of db'] obtain new where
        n: "balances_tbl (fst (store_balances w ts ps db' bs)) = balances_tbl db' @ new"
           "\<forall>r\<in>set new. b_wallet r = w \<and> b_timestamp r = ts"
           "trades_tbl (fst (store_balances w ts ps db' bs)) = trades_tbl db'"
           "case snd (store_balances w ts ps db' bs) of
              None \<Rightarrow> length new = length bs | Some e \<Rightarrow> length new < length bs"
        by blast
      have s: "store_balances w ts ps db (b # bs) = store_balances w ts ps db' bs"
        using Inr i(1) by (simp add: Let_def)
      have "balances_tbl (fst (store_balances w ts ps db (b # bs))) = balances_tbl db @ (row # new)"
        using s n(1) i(2) by simp
      moreover have "\<forall>r\<in>set (row # new). b_wallet r = w \<and> b_timestamp r = ts"
        using n(2) i(4,5) by simp
      moreover have "trades_tbl (fst (store_balances w ts ps db (b # bs))) = trades_tbl db"
        using s n(3) i(3) by simp
      moreover have "case snd (store_balances w ts ps db (b # bs)) of
              None \<Rightarrow> length (row # new) = length (b # bs)
            | Some e \<Rightarrow> length (row # new) < length (b # bs)"
        using s n(4) by (simp split: option.splits)
      ultimately show ?thesis by blast
    qed
  qed
qed



lemma store_trades_appends:
  "\<exists>new. trades_tbl (store_trades w df db rs) = trades_tbl db @ new \<and>
          map t_timestamp new = (if essential_columns df then map timestamp rs else []) \<and>
          balances_tbl (store_trades w df db rs) = balances_tbl db"
proof (induction rs arbitrary: db)
  case Nil
  then show ?case by simp
next
  case (Cons r rs)
  show ?case
  proof (cases "essential_columns df")
    case False
    with Cons.IH [of db] show ?thesis by (auto simp: essential_columns_def)
  next
    case True
    let ?db = "insert_trade db w (timestamp r) (trade_get df ''coin'' tcoin ''Unknown'' r)
                (trade_get df ''side'' side ''unknown'' r) (trade_get df ''size'' size 0 r)
                (trade_get df ''price'' price 0 r) (trade_get df ''fee'' fee 0 r)
                (trade_get df ''value_usd'' value_usd 0 r)"
    from Cons.IH [of ?db] True obtain new where
      n: "trades_tbl (store_trades w df ?db rs) = trades_tbl ?db @ new"
         "map t_timestamp new = map timestamp rs"
         "balances_tbl (store_trades w df ?db rs) = balances_tbl ?db"
      by auto
    obtain row where r: "trades_tbl ?db = trades_tbl db @ [row]" "t_timestamp row = timestamp r"
      "balances_tbl ?db = balances_tbl db"
      by (simp add: insert_trade_def)
    have s: "store_trades w df db (r # rs) = store_trades w df ?db rs"
      using True by (simp add: essential_columns_def)
    have "trades_tbl (store_trades w df db (r # rs)) = trades_tbl db @ (row # new)"
      using n(1) r(1) s by simp
    moreover have "map t_timestamp (row # new) = map timestamp (r # rs)"
      using n(2) r(2) by simp
    ultimately show ?thesis using True n(3) r(3) s by (metis (full_types))
  qed
qed

lemma store_wallet_data_appends:
  "\<exists>new_balances new_trades.
     balances_tbl (fst (store_wallet_data now db wallet balances ps trades))
       = balances_tbl db @ new_balances \<and>
     trades_tbl (fst (store_wallet_data now db wallet balances ps trades))
       = trades_tbl db @ new_trades \<and>
     (\<forall>r\<in>set new_balances. b_wallet r = wallet \<and> b_timestamp r = now) \<and>
     (case snd (store_wallet_data now db wallet balances ps trades) of
        None \<Rightarrow>
          length new_balances = length balances \<and>
          map t_timestamp new_trades =
            (case trades of None \<Rightarrow> []
             | Some df \<Rightarrow> if essential_columns df then map timestamp (rows df) else [])
      | Some e \<Rightarrow> length new_balances < length balances \<and> new_trades = [])"
proof -
  let ?r1 = "store_balances wallet now ps db balances"
  obtain nb where nb: "balances_tbl (fst ?r1) = balances_tbl db @ nb"
    "\<forall>r\<in>set nb. b_wallet r = wallet \<and> b_timestamp r = now"
    "trades_tbl (fst ?r1) = trades_tbl db"
    "case snd ?r1 of None \<Rightarrow> length nb = length balances | Some e \<Rightarrow> length nb < length balances"
    using store_balances_appends by blast
  obtain db1 err where r1: "?r1 = (db1, err)" by (cases ?r1)
  show ?thesis
  proof (cases err)
    case (Some e)
    with r1 have "store_wallet_data now db wallet balances ps trades = (db1, Some e)"
      by (simp add: store_wallet_data_def)
    with nb r1 Some show ?thesis by simp
  next
    case None
    note ok = None
    show ?thesis
    proof (cases trades)
      case None
      with r1 ok have "store_wallet_data now db wallet balances ps trades = (db1, None)"
        by (simp add: store_wallet_data_def)
      with nb r1 ok None show ?thesis by simp
    next
      case (Some df)
      show ?thesis
      proof (cases "df_empty df")
        case True
        then have e: "(if essential_columns df then map timestamp (rows df) else []) = []"
          by (auto simp: df_empty_def essential_columns_def has_column_def)
        from r1 ok Some True
        have "store_wallet_data now db wallet balances ps trades = (db1, None)"
          by (simp add: store_wallet_data_def)
        with nb r1 ok Some e show ?thesis by simp
      next
        case False
        obtain nt where nt: "trades_tbl (store_trades wallet df db1 (rows df)) = trades_tbl db1 @ nt"
          "map t_timestamp nt = (if essential_columns df then map timestamp (rows df) else [])"
          "balances_tbl (store_trades wallet df db1 (rows df)) = balances_tbl db1"
          using store_trades_appends by blast
        from r1 ok Some False
        have "store_wallet_data now db wallet balances ps trades
                = (store_trades wallet df db1 (rows df), None)"
          by (simp add: store_wallet_data_def)
        with nb nt r1 ok Some show ?thesis by simp
      qed
    qed
  qed
qed


text \<open>
  C10, as stated, fails for the trade rows. The timestamp read at the top of the call
  goes into the balance rows only; a trade row is written with the time of the trade.
  A call at time 100 that stores one balance and one fill executed at time 5 writes a
  balance row stamped 100 and a trade row stamped 5.
\<close>

theorem trade_rows_keep_trade_time:
  "map b_timestamp
     (balances_tbl (fst (store_wallet_data 100 fresh_db ''0xabc'' hype_balance hype_price
        (Some one_fill))))
     = [100] \<and>
   map t_timestamp
     (trades_tbl (fst (store_wallet_data 100 fresh_db ''0xabc'' hype_balance hype_price
        (Some one_fill))))
     = [5]"
  by (simp add: store_eval)

text \<open>
  C10, amended. A call of \<open>store_wallet_data\<close> appends balance rows only, all for the
  wallet of the call and all with the one timestamp read at its start, so the balance
  snapshot of a call is identified by a single pair of wallet and timestamp. When the
  call returns there is one such row per balance entry, and the trade rows it appends
  carry the timestamps of the trades themselves (when the frame has the five essential
  columns; otherwise none is appended). When the call raises, the balance rows written
  before the exception carry that same timestamp and no trade row is written.
\<close>

theorem store_stamps_balances_once:
  "let result = store_wallet_data now db wallet balances ps trades;
       db' = fst result;
       new_balances = drop (length (balances_tbl db)) (balances_tbl db');
       new_trades = drop (length (trades_tbl db)) (trades_tbl db')
   in balances_tbl db' = balances_tbl db @ new_balances \<and>
      trades_tbl db' = trades_tbl db @ new_trades \<and>
      (\<forall>r\<in>set new_balances. b_wallet r = wallet \<and> b_timestamp r = now) \<and>
      (case snd result of
         None \<Rightarrow>
           length new_balances = length balances \<and>
           map t_timestamp new_trades =
             (case trades of None \<Rightarrow> []
              | Some df \<Rightarrow> if essential_columns df then map timestamp (rows df) else [])
       | Some e \<Rightarrow> length new_balances < length balances \<and> new_trades = [])"
proof -
  obtain nb nt where
    a: "balances_tbl (fst (store_wallet_data now db wallet balances ps trades)) = balances_tbl db @ nb"
       "trades_tbl (fst (store_wallet_data now db wallet balances ps trades)) = trades_tbl db @ nt"
       "\<forall>r\<in>set nb. b_wallet r = wallet \<and> b_timestamp r = now"
       "case snd (store_wallet_data now db wallet balances ps trades) of
          None \<Rightarrow>
            length nb = length balances \<and>
            map t_timestamp nt =
              (case trades of None \<Rightarrow> []
               | Some df \<Rightarrow> if essential_columns df then map timestamp (rows df) else [])
        | Some e \<Rightarrow> length nb < length balances \<and> nt = []"
    using store_wallet_data_appends by blast
  show ?thesis
  proof (cases "snd (store_wallet_data now db wallet balances ps trades)")
    case None
    with a show ?thesis by (simp add: Let_def)
  next
    case (Some e)
    with a show ?thesis by (simp add: Let_def)
  qed
qed

theorem store_stamps_balances_once_witness:
  "snd (store_wallet_data 200 one_snapshot ''0xabc'' hype_balance hype_price (Some one_fill))
     = None \<and>
   map b_timestamp
     (drop (length (balances_tbl one_snapshot))
        (balances_tbl (fst (store_wallet_data 200 one_snapshot ''0xabc'' hype_balance hype_price
           (Some one_fill))))) = [200] \<and>
   map t_timestamp
     (drop (length (trades_tbl one_snapshot))
        (trades_tbl (fst (store_wallet_data 200 one_snapshot ''0xabc'' hype_balance hype_price
           (Some one_fill))))) = [5]"
proof -
  let ?res = "store_wallet_data 200 one_snapshot ''0xabc'' hype_balance hype_price (Some one_fill)"
  let ?nb = "drop (length (balances_tbl one_snapshot)) (balances_tbl (fst ?res))"
  let ?nt = "drop (length (trades_tbl one_snapshot)) (trades_tbl (fst ?res))"
  have e: "essential_columns one_fill"
    by (simp add: essential_columns_def one_fill_def has_column_def)
  have r: "map timestamp (rows one_fill) = [5]"
    by (simp add: one_fill_def)
  have n: "snd ?res = None"
    by (simp add: one_snapshot_def store_eval)
  from store_stamps_balances_once
    [of 200 one_snapshot "''0xabc''" hype_balance hype_price "Some one_fill"] n
  have s: "\<forall>r\<in>set ?nb. b_wallet r = ''0xabc'' \<and> b_timestamp r = 200"
    and l: "length ?nb = length hype_balance"
    and t: "map t_timestamp ?nt = [5]"
    by (simp_all add: Let_def e r del: length_drop)
  from l obtain x where "?nb = [x]"
    by (cases ?nb) (simp_all add: hype_balance_def del: length_drop)
  with s have "map b_timestamp ?nb = [200]" by simp
  with n t show ?thesis by simp
qed


subsection \<open>Store, then read the latest snapshot\<close>







subsection \<open>Recent trades\<close>

lemma sorted_desc_order:
  "sorted_wrt (\<lambda>a b. t_timestamp b \<le> t_timestamp a) (order_by_timestamp_desc rs)"
proof -
  have "sorted (map (\<lambda>r. - t_timestamp r) (sort_key (\<lambda>r. - t_timestamp r) rs))"
    by (rule sorted_sort_key)
  then show ?thesis
    by (simp add: order_by_timestamp_desc_def sorted_map)
qed

lemma sql_limit_sorted: "sorted_wrt P xs \<Longrightarrow> sorted_wrt P (sql_limit n xs)"
  by (simp add: sql_limit_def sorted_wrt_take)

lemma sql_limit_length: "0 \<le> n \<Longrightarrow> int (length (sql_limit n xs)) \<le> n"
  by (simp add: sql_limit_def)

lemma sql_limit_negative: "n < 0 \<Longrightarrow> sql_limit n xs = xs"
  by (simp add: sql_limit_def)

lemma two_refreshes_rows:
  "trades_tbl two_refreshes =
     [\<lparr>t_id = 1, t_wallet = ''0xabc'', t_timestamp = 5, t_coin = ''HYPE'', t_side = ''buy'',
       t_size = 2, t_price = 3, t_fee = 0, t_value_usd = 0\<rparr>,
      \<lparr>t_id = 2, t_wallet = ''0xabc'', t_timestamp = 5, t_coin = ''HYPE'', t_side = ''buy'',
       t_size = 2, t_price = 3, t_fee = 0, t_value_usd = 0\<rparr>]"
  by (simp add: two_refreshes_def store_eval)

text \<open>
  C5, as stated, fails. Every refresh stores the fetched fills again, so after two
  refreshes the same fill is in the table twice: the two rows returned have the same
  timestamp and the order is not strict. SQLite reads a negative \<^verbatim>\<open>LIMIT\<close> as no
  limit: with limit \<open>-1\<close> both rows come back. And a limit of \<open>2^63\<close> does not fit
  SQLite's integer: the call raises \<^verbatim>\<open>OverflowError\<close> and returns no rows at all.
\<close>

theorem recent_trades_ties_and_limits:
  "map_sum id (map t_timestamp) (get_recent_trades two_refreshes (Some ''0xabc'') 10)
     = Inr [5, 5] \<and>
   map_sum id length (get_recent_trades two_refreshes (Some ''0xabc'') (- 1)) = Inr 2 \<and>
   get_recent_trades two_refreshes (Some ''0xabc'') (2 ^ 63) = Inl OverflowError"
  by (simp add: get_recent_trades_def trades_where_def fits_int64_def two_refreshes_rows
      order_by_timestamp_desc_def sql_limit_def)

text \<open>
  C5, amended. For every table of trades and wallet filter: a limit outside the 64-bit
  range makes \<open>get_recent_trades\<close> raise \<^verbatim>\<open>OverflowError\<close>; a limit inside it gives
  rows in non-increasing order of timestamp (rows may tie), at most \<open>limit\<close> of them
  when the limit is not negative, and all the rows that pass the wallet filter when it
  is negative.
\<close>

theorem recent_trades_bounded_sorted:
  "(limit < - (2 ^ 63) \<or> 2 ^ 63 \<le> limit
      \<longrightarrow> get_recent_trades db wallet limit = Inl OverflowError) \<and>
   (- (2 ^ 63) \<le> limit \<and> limit < 2 ^ 63
      \<longrightarrow> (\<exists>rs. get_recent_trades db wallet limit = Inr rs \<and>
             sorted_wrt (\<lambda>a b. t_timestamp b \<le> t_timestamp a) rs \<and>
             (0 \<le> limit \<longrightarrow> int (length rs) \<le> limit) \<and>
             (limit < 0 \<longrightarrow> mset rs = mset (trades_where db wallet))))"
proof -
  let ?rs = "sql_limit limit (order_by_timestamp_desc (trades_where db wallet))"
  have s: "sorted_wrt (\<lambda>a b. t_timestamp b \<le> t_timestamp a) ?rs"
    by (rule sql_limit_sorted) (rule sorted_desc_order)
  have l: "0 \<le> limit \<longrightarrow> int (length ?rs) \<le> limit"
    by (simp add: sql_limit_length)
  have m: "limit < 0 \<longrightarrow> mset ?rs = mset (trades_where db wallet)"
    by (simp add: sql_limit_negative order_by_timestamp_desc_def)
  from s l m show ?thesis
    by (simp add: get_recent_trades_def fits_int64_def not_le not_less)
qed

theorem recent_trades_bounded_sorted_witness:
  "\<exists>rs. get_recent_trades two_refreshes (Some ''0xabc'') 1 = Inr rs \<and>
         sorted_wrt (\<lambda>a b. t_timestamp b \<le> t_timestamp a) rs \<and> int (length rs) \<le> 1"
  using recent_trades_bounded_sorted [of 1 two_refreshes "Some ''0xabc''"] by auto

section \<open>Properties of the data source adapter\<close>

text \<open>
  C8. Whenever the fetch does not yield a JSON object with the key \<open>balances\<close> (the
  request or the parser raised, or the body has no such key, or is not an object at
  all), \<open>get_token_balances\<close> does not raise and returns the three demo balances
  HYPE 0.0505, USDC 0.0000 and USDT 0.0010, whatever the wallet.
\<close>

theorem token_balances_fallback:
  assumes "\<forall>kvs. post api_endpoint [(''type'', ''spotClearinghouseState''), (''user'', wallet)]
                   = Inr (JObj kvs) \<longrightarrow> ''balances'' \<notin> set (map fst kvs)"
  shows "get_token_balances post wallet api_endpoint =
     Inr (JArr [JObj [(''coin'', JStr ''HYPE''), (''total'', JStr ''0.0505'')],
                JObj [(''coin'', JStr ''USDC''), (''total'', JStr ''0.0000'')],
                JObj [(''coin'', JStr ''USDT''), (''total'', JStr ''0.0010'')]])"
proof (cases "post api_endpoint [(''type'', ''spotClearinghouseState''), (''user'', wallet)]")
  case (Inl e)
  then show ?thesis
    by (simp add: get_token_balances_def token_balances_body_def demo_balances_def)
next
  case (Inr data)
  show ?thesis
  proof (cases data)
    case (JObj kvs)
    with Inr assms have "''balances'' \<notin> set (map fst kvs)" by blast
    with Inr JObj show ?thesis
      by (simp add: get_token_balances_def token_balances_body_def demo_balances_def)
  qed (use Inr in \<open>simp_all add: get_token_balances_def token_balances_body_def demo_balances_def\<close>)
qed

theorem token_balances_fallback_witness:
  "get_token_balances failing_post ''0xabc'' ''https://api'' = Inr demo_balances \<and>
   get_token_balances error_body_post ''0xabc'' ''https://api'' = Inr demo_balances"
proof -
  have a: "\<forall>kvs. failing_post ''https://api''
             [(''type'', ''spotClearinghouseState''), (''user'', ''0xabc'')]
           = Inr (JObj kvs) \<longrightarrow> ''balances'' \<notin> set (map fst kvs)"
    by (simp add: failing_post_def)
  have b: "\<forall>kvs. error_body_post ''https://api''
             [(''type'', ''spotClearinghouseState''), (''user'', ''0xabc'')]
           = Inr (JObj kvs) \<longrightarrow> ''balances'' \<notin> set (map fst kvs)"
    by (auto simp: error_body_post_def)
  from token_balances_fallback [of failing_post "''https://api''" "''0xabc''", OF a]
    token_balances_fallback [of error_body_post "''https://api''" "''0xabc''", OF b]
  show ?thesis by (simp add: demo_balances_def)
qed

end
